theory Spec2Isabelle
  imports Complex_Main
begin

section \<open>JavaScript values used by the External backend\<close>

text \<open>
  The fields of the backend hold JavaScript numbers, \<open>null\<close> or \<open>undefined\<close>.
  A number is an IEEE double: a finite value, one of the two infinities, or NaN.
  Finite doubles are read as reals here, so rounding, overflow and the sign of zero are
  abstracted away; NaN, the infinities and the coercions of \<open>null\<close> (to 0) and
  \<open>undefined\<close> (to NaN) are kept, because the code relies on them.
\<close>

datatype jsnum = Fin real | PInf | NInf | NaN

datatype jsval = Undefined | Null | JNum jsnum

text \<open>ToNumber of the language: \<open>null\<close> is 0, \<open>undefined\<close> is NaN.\<close>

fun to_number :: "jsval \<Rightarrow> jsnum" where
  "to_number Undefined = NaN"
| "to_number Null = Fin 0"
| "to_number (JNum n) = n"

fun num_neg :: "jsnum \<Rightarrow> jsnum" where
  "num_neg (Fin a) = Fin (- a)"
| "num_neg PInf = NInf"
| "num_neg NInf = PInf"
| "num_neg NaN = NaN"

fun num_add :: "jsnum \<Rightarrow> jsnum \<Rightarrow> jsnum" where
  "num_add (Fin a) (Fin b) = Fin (a + b)"
| "num_add (Fin a) PInf = PInf"
| "num_add (Fin a) NInf = NInf"
| "num_add PInf (Fin b) = PInf"
| "num_add PInf PInf = PInf"
| "num_add PInf NInf = NaN"
| "num_add NInf (Fin b) = NInf"
| "num_add NInf NInf = NInf"
| "num_add NInf PInf = NaN"
| "num_add NaN y = NaN"
| "num_add x NaN = NaN"

definition num_sub :: "jsnum \<Rightarrow> jsnum \<Rightarrow> jsnum" where
  "num_sub x y = num_add x (num_neg y)"

text \<open>The sign of an infinity or of a non-zero finite number, for products and quotients.\<close>

fun num_pos :: "jsnum \<Rightarrow> bool" where
  "num_pos (Fin a) = (0 < a)"
| "num_pos PInf = True"
| "num_pos NInf = False"
| "num_pos NaN = False"

definition signed_inf :: "bool \<Rightarrow> jsnum" where
  "signed_inf p = (if p then PInf else NInf)"

fun num_mul :: "jsnum \<Rightarrow> jsnum \<Rightarrow> jsnum" where
  "num_mul NaN y = NaN"
| "num_mul x NaN = NaN"
| "num_mul (Fin a) (Fin b) = Fin (a * b)"
| "num_mul (Fin a) y = (if a = 0 then NaN else signed_inf (num_pos (Fin a) = num_pos y))"
| "num_mul x (Fin b) = (if b = 0 then NaN else signed_inf (num_pos x = num_pos (Fin b)))"
| "num_mul x y = signed_inf (num_pos x = num_pos y)"

fun num_div :: "jsnum \<Rightarrow> jsnum \<Rightarrow> jsnum" where
  "num_div NaN y = NaN"
| "num_div x NaN = NaN"
| "num_div (Fin a) (Fin b) =
     (if b = 0 then (if a = 0 then NaN else signed_inf (0 < a)) else Fin (a / b))"
| "num_div (Fin a) y = Fin 0"
| "num_div x (Fin b) = signed_inf (num_pos x = (0 \<le> b))"
| "num_div x y = NaN"

text \<open>\<open>x >= y\<close> on numbers: false as soon as one side is NaN.\<close>

fun num_ge :: "jsnum \<Rightarrow> jsnum \<Rightarrow> bool" where
  "num_ge NaN y = False"
| "num_ge x NaN = False"
| "num_ge (Fin a) (Fin b) = (b \<le> a)"
| "num_ge PInf y = True"
| "num_ge x NInf = True"
| "num_ge x y = False"

definition js_ge :: "jsval \<Rightarrow> jsval \<Rightarrow> bool" where
  "js_ge x y = num_ge (to_number x) (to_number y)"

definition js_add :: "jsval \<Rightarrow> jsval \<Rightarrow> jsval" where
  "js_add x y = JNum (num_add (to_number x) (to_number y))"

definition js_sub :: "jsval \<Rightarrow> jsval \<Rightarrow> jsval" where
  "js_sub x y = JNum (num_sub (to_number x) (to_number y))"

definition js_mul :: "jsval \<Rightarrow> jsval \<Rightarrow> jsval" where
  "js_mul x y = JNum (num_mul (to_number x) (to_number y))"

definition js_div :: "jsval \<Rightarrow> jsval \<Rightarrow> jsval" where
  "js_div x y = JNum (num_div (to_number x) (to_number y))"

text \<open>Truthiness: \<open>undefined\<close>, \<open>null\<close>, 0 and NaN are falsy.\<close>

fun truthy :: "jsval \<Rightarrow> bool" where
  "truthy Undefined = False"
| "truthy Null = False"
| "truthy (JNum (Fin a)) = (a \<noteq> 0)"
| "truthy (JNum NaN) = False"
| "truthy (JNum PInf) = True"
| "truthy (JNum NInf) = True"

text \<open>\<open>x || y\<close>\<close>

definition js_or :: "jsval \<Rightarrow> jsval \<Rightarrow> jsval" where
  "js_or x y = (if truthy x then x else y)"

text \<open>\<open>x == null\<close>: true of \<open>null\<close> and of \<open>undefined\<close>.\<close>

fun nullish :: "jsval \<Rightarrow> bool" where
  "nullish Undefined = True"
| "nullish Null = True"
| "nullish (JNum n) = False"


section \<open>The state of the backend\<close>

datatype pstate = PLAYING | PAUSED | FINISHED

datatype event = EvPlay | EvPause | EvAudioprocess jsval | EvFinish

text \<open>
  The fields of the class, in the order of the constructor; \<open>state\<close> is \<open>None\<close> while
  the field is \<open>null\<close>. Three more fields stand for what the class inherits and calls.
\<close>

text \<open>
  Modelled from the spec: the observer base class (\<open>util.Observer\<close>) and the
  animation-frame scheduler of the browser are not part of the source file. The spec's
  Event Sink delivers synchronously in call order, so \<open>events\<close> is the log of the
  \<open>fireEvent\<close> calls, oldest first, and \<open>timers\<close> counts how often \<open>createTimer\<close>
  has subscribed its two handlers. The spec's Clock Source invokes each armed callback once
  with a timestamp, so \<open>pending\<close> counts the callbacks armed by
  \<open>requestAnimationFrame(onAudioProcess)\<close> that have not run yet.
\<close>

record external =
  peaks :: "real list option"
  playbackRate :: jsval
  volume :: jsval
  scheduledPause :: jsval
  clockTime :: jsval
  startPosition :: jsval
  lastPlay :: jsval
  explicitDuration :: jsval
  state :: "pstate option"
  events :: "event list"
  timers :: nat
  pending :: nat

definition constructor :: external where
  "constructor =
     \<lparr> peaks = None, playbackRate = JNum (Fin 1), volume = JNum (Fin 1),
       scheduledPause = Null, clockTime = Null, startPosition = Null, lastPlay = Null,
       explicitDuration = Null, state = None, events = [], timers = 0, pending = 0 \<rparr>"


section \<open>The methods\<close>

text \<open>
  Modelled from the spec: \<open>fireEvent\<close> of the observer appends to the log. The answers
  of the handlers subscribed by \<open>createTimer\<close> are written where \<open>play\<close> and
  \<open>pause\<close> fire their events.
\<close>

definition fireEvent :: "event \<Rightarrow> external \<Rightarrow> external" where
  "fireEvent e s = s\<lparr>events := events s @ [e]\<rparr>"

text \<open>
  Modelled from the spec: \<open>requestAnimationFrame(onAudioProcess)\<close> arms one more run of
  the callback.
\<close>

definition requestAnimationFrame :: "external \<Rightarrow> external" where
  "requestAnimationFrame s = s\<lparr>pending := Suc (pending s)\<rparr>"

definition setPeaks :: "real list option \<Rightarrow> jsval \<Rightarrow> external \<Rightarrow> external" where
  "setPeaks pk duration s = s\<lparr>explicitDuration := duration, peaks := pk\<rparr>"

definition isPaused :: "external \<Rightarrow> bool" where
  "isPaused s = (state s \<noteq> Some PLAYING)"

definition getDuration :: "external \<Rightarrow> jsval" where
  "getDuration s = explicitDuration s"

definition getPlayedTime :: "external \<Rightarrow> jsval" where
  "getPlayedTime s = js_mul (js_sub (clockTime s) (lastPlay s)) (playbackRate s)"

text \<open>A \<open>switch\<close> with no matching case falls through: the method returns \<open>undefined\<close>.\<close>

definition getCurrentTime :: "external \<Rightarrow> jsval" where
  "getCurrentTime s =
     (case state s of
        Some PLAYING \<Rightarrow> js_add (startPosition s) (getPlayedTime s)
      | Some PAUSED \<Rightarrow> startPosition s
      | Some FINISHED \<Rightarrow> getDuration s
      | None \<Rightarrow> Undefined)"

definition getPlayedPercents :: "external \<Rightarrow> jsval" where
  "getPlayedPercents s =
     (if state s = Some FINISHED then JNum (Fin 1)
      else js_or (js_div (getCurrentTime s) (getDuration s)) (JNum (Fin 0)))"

definition setState :: "pstate \<Rightarrow> external \<Rightarrow> external" where
  "setState st s =
     (if state s \<noteq> Some st then
        (let s1 = s\<lparr>state := Some st\<rparr>
         in if st = FINISHED then fireEvent EvFinish s1 else s1)
      else s)"

definition getPlaybackRate :: "external \<Rightarrow> jsval" where
  "getPlaybackRate s = playbackRate s"

definition seekTo :: "jsval \<Rightarrow> external \<Rightarrow> external" where
  "seekTo start s =
     (let start1 =
        (if nullish start then
           (let c = getCurrentTime s
            in if js_ge c (getDuration s) then JNum (Fin 0) else c)
         else start);
          s1 = s\<lparr>startPosition := start1\<rparr>
      in if state s1 = Some FINISHED then setState PAUSED s1 else s1)"

text \<open>
  \<open>pause\<close> fires the \<open>pause\<close> event; each subscription made by \<open>createTimer\<close> answers it
  with one \<open>audioprocess\<close> event carrying the current time.
\<close>

definition on_pause :: "external \<Rightarrow> external" where
  "on_pause s = fireEvent (EvAudioprocess (getCurrentTime s)) s"

definition pause :: "external \<Rightarrow> external" where
  "pause s =
     (let s1 = s\<lparr>scheduledPause := Null\<rparr>;
          s2 = s1\<lparr>startPosition := js_add (startPosition s1) (getPlayedTime s1)\<rparr>;
          s3 = setState PAUSED s2;
          s4 = fireEvent EvPause s3
      in (on_pause ^^ timers s4) s4)"

text \<open>
  The callback \<open>onAudioProcess\<close> of \<open>createTimer\<close>. Its first statement, the update of the
  clock fields, is \<open>clock_update\<close>; the three-way branch follows.
\<close>

definition clock_update :: "jsval \<Rightarrow> external \<Rightarrow> external" where
  "clock_update time s =
     (if \<not> nullish time then
        (let s1 = s\<lparr>clockTime := js_div time (JNum (Fin 1000))\<rparr>
         in if nullish (lastPlay s1) then s1\<lparr>lastPlay := clockTime s1\<rparr> else s1)
      else s)"

definition onAudioProcess :: "jsval \<Rightarrow> external \<Rightarrow> external" where
  "onAudioProcess time s =
     (let s1 = clock_update time s
      in if js_ge (getCurrentTime s1) (getDuration s1) then setState FINISHED (pause s1)
         else if truthy (scheduledPause s1) \<and> js_ge (getCurrentTime s1) (scheduledPause s1)
           then pause s1
         else if state s1 = Some PLAYING
           then requestAnimationFrame (fireEvent (EvAudioprocess (getCurrentTime s1)) s1)
         else s1)"

definition createTimer :: "external \<Rightarrow> external" where
  "createTimer s = s\<lparr>timers := Suc (timers s)\<rparr>"

text \<open>
  \<open>play\<close> fires the \<open>play\<close> event; each subscription made by \<open>createTimer\<close> answers it by
  running \<open>onAudioProcess\<close> with no argument, that is with \<open>undefined\<close>.
\<close>

definition play :: "jsval \<Rightarrow> jsval \<Rightarrow> external \<Rightarrow> external" where
  "play start end s =
     (let s1 = seekTo start s;
          s2 = s1\<lparr>scheduledPause := end\<rparr>;
          s3 = setState PLAYING s2;
          s4 = s3\<lparr>lastPlay := Null\<rparr>;
          s5 = s4\<lparr>clockTime := Null\<rparr>;
          s6 = fireEvent EvPlay s5
      in (onAudioProcess Undefined ^^ timers s6) s6)"

definition setPlaybackRate :: "jsval \<Rightarrow> external \<Rightarrow> external" where
  "setPlaybackRate v s =
     (let v1 = js_or v (JNum (Fin 1))
      in if isPaused s then s\<lparr>playbackRate := v1\<rparr>
         else play Undefined Undefined ((pause s)\<lparr>playbackRate := v1\<rparr>))"

definition init :: "jsval \<Rightarrow> external \<Rightarrow> external" where
  "init audioRate s = createTimer (setPlaybackRate audioRate s)"

definition load :: "real list option \<Rightarrow> jsval \<Rightarrow> external \<Rightarrow> external" where
  "load pk duration s =
     (let s1 = s\<lparr>startPosition := JNum (Fin 0)\<rparr>;
          s2 = setPeaks pk duration s1;
          s3 = s2\<lparr>scheduledPause := Null\<rparr>
      in setState PAUSED s3)"

text \<open>\<open>getPeaks(length, first, last)\<close> ignores its three arguments.\<close>

definition getPeaks :: "nat \<Rightarrow> nat \<Rightarrow> nat \<Rightarrow> external \<Rightarrow> real list" where
  "getPeaks len fst_sample lst_sample s = (case peaks s of None \<Rightarrow> [] | Some p \<Rightarrow> p)"

definition getVolume :: "external \<Rightarrow> jsval" where
  "getVolume s = volume s"

definition setVolume :: "jsval \<Rightarrow> external \<Rightarrow> external" where
  "setVolume v s = s\<lparr>volume := v\<rparr>"

text \<open>Modelled from the spec: \<open>unAll\<close> of the observer drops every subscription.\<close>

definition unAll :: "external \<Rightarrow> external" where
  "unAll s = s\<lparr>timers := 0\<rparr>"

definition destroy :: "external \<Rightarrow> external" where
  "destroy s = unAll (pause s)"

text \<open>
  Modelled from the spec: one animation frame at timestamp \<open>t\<close> (milliseconds). Every
  callback armed before the frame runs once with \<open>t\<close>; a callback armed during the frame
  waits for the next one.
\<close>

definition frame :: "real \<Rightarrow> external \<Rightarrow> external" where
  "frame t s = (onAudioProcess (JNum (Fin t)) ^^ pending s) (s\<lparr>pending := 0\<rparr>)"


section \<open>Sessions\<close>

text \<open>
  A playing session is driven by two kinds of calls: a tick, that is one run of the armed
  callback with a timestamp in milliseconds, and \<open>setPlaybackRate\<close> with a finite rate.
\<close>

datatype action = Tick real | SetRate real

fun step :: "action \<Rightarrow> external \<Rightarrow> external" where
  "step (Tick t) s = onAudioProcess (JNum (Fin t)) s"
| "step (SetRate v) s = setPlaybackRate (JNum (Fin v)) s"

fun run :: "action list \<Rightarrow> external \<Rightarrow> external" where
  "run [] s = s"
| "run (a # as) s = run as (step a s)"

text \<open>
  The advance of a session as the specification words it, a sum over segments: the session
  is cut into segments at the rate changes, each segment has the rate in force and the ticks
  it received, and it contributes its rate times its duration. The duration of a segment is
  measured on its own ticks, from the first to the last. \<open>setPlaybackRate(0)\<close> sets the
  rate 1.
\<close>

fun segments :: "real \<Rightarrow> real list \<Rightarrow> action list \<Rightarrow> (real \<times> real list) list" where
  "segments r ts [] = [(r, ts)]"
| "segments r ts (Tick t # as) = segments r (ts @ [t]) as"
| "segments r ts (SetRate v # as) = (r, ts) # segments (if v = 0 then 1 else v) [] as"

definition segment_duration :: "real list \<Rightarrow> real" where
  "segment_duration ts = (if ts = [] then 0 else (last ts - hd ts) / 1000)"

definition segments_advance :: "(real \<times> real list) list \<Rightarrow> real" where
  "segments_advance segs = sum_list (map (\<lambda>(r, ts). r * segment_duration ts) segs)"

text \<open>
  The shape of a Playing state inside a session: position \<open>p\<close> held in \<open>startPosition\<close>,
  rate \<open>r\<close>, the anchors unset when the current segment has had no tick and otherwise at
  its first and last tick, and the current time not at or beyond the duration.
\<close>

definition anchored :: "real list \<Rightarrow> external \<Rightarrow> bool" where
  "anchored ts s =
     (if ts = [] then lastPlay s = Null \<and> clockTime s = Null
      else lastPlay s = JNum (Fin (hd ts / 1000)) \<and> clockTime s = JNum (Fin (last ts / 1000)))"

definition session_inv :: "real \<Rightarrow> real \<Rightarrow> real list \<Rightarrow> external \<Rightarrow> bool" where
  "session_inv p r ts s =
     (state s = Some PLAYING \<and> startPosition s = JNum (Fin p) \<and>
      playbackRate s = JNum (Fin r) \<and> anchored ts s \<and>
      \<not> js_ge (getCurrentTime s) (getDuration s))"


section \<open>Example sessions\<close>

text \<open>
  Concrete sessions on which the theorems below are exercised. \<open>demo\<close> is a backend
  created, initialised with \<open>audioRate = 1\<close> and loaded with a clip of 10 seconds.
\<close>

definition demo :: external where
  "demo = load (Some []) (JNum (Fin 10)) (init (JNum (Fin 1)) constructor)"

text \<open>\<open>play()\<close>, then the frames at 0 ms and 1000 ms: Playing at second 1.\<close>

definition demo_playing :: external where
  "demo_playing = frame 1000 (frame 0 (play Undefined Undefined demo))"

text \<open>One more frame at 11000 ms, beyond the end of the clip.\<close>

definition demo_finished :: external where
  "demo_finished = frame 11000 demo_playing"

text \<open>A clip of 4 seconds and an explicit seek to second 5.\<close>

definition demo_past :: external where
  "demo_past =
     seekTo (JNum (Fin 5)) (load (Some []) (JNum (Fin 4)) (init (JNum (Fin 1)) constructor))"

text \<open>A clip of duration 0 and an explicit seek to second 5.\<close>

definition demo_zero :: external where
  "demo_zero =
     seekTo (JNum (Fin 5)) (load (Some []) (JNum (Fin 0)) (init (JNum (Fin 1)) constructor))"

text \<open>\<open>play(0, 0)\<close> and \<open>play(0, 5)\<close>, each followed by the frame at 0 ms.\<close>

definition demo_end_zero :: external where
  "demo_end_zero = frame 0 (play (JNum (Fin 0)) (JNum (Fin 0)) demo)"

definition demo_end_five :: external where
  "demo_end_five = frame 0 (play (JNum (Fin 0)) (JNum (Fin 5)) demo)"

text \<open>
  \<open>play(9.5)\<close>, a change of the rate to 2 while Playing, and the frame at 0 ms: the
  callback armed by the first \<open>play\<close> is still pending when \<open>setPlaybackRate\<close> plays
  again and arms a second one.
\<close>

definition demo_two_chains :: external where
  "demo_two_chains =
     frame 0 (setPlaybackRate (JNum (Fin 2)) (play (JNum (Fin 9.5)) Undefined demo))"

text \<open>\<open>play(3)\<close>, before any frame.\<close>

definition demo_started :: external where
  "demo_started = play (JNum (Fin 3)) Undefined demo"


section \<open>Basic facts\<close>

lemma num_add_zero [simp]: "num_add x (Fin 0) = x"
  by (cases x) simp_all

lemma getPlayedTime_upd [simp]:
  "getPlayedTime (s\<lparr>events := e\<rparr>) = getPlayedTime s"
  "getPlayedTime (s\<lparr>pending := n\<rparr>) = getPlayedTime s"
  "getPlayedTime (s\<lparr>scheduledPause := v\<rparr>) = getPlayedTime s"
  "getPlayedTime (s\<lparr>state := st\<rparr>) = getPlayedTime s"
  "getPlayedTime (s\<lparr>startPosition := v\<rparr>) = getPlayedTime s"
  by (simp_all add: getPlayedTime_def)

lemma getCurrentTime_upd [simp]:
  "getCurrentTime (s\<lparr>events := e\<rparr>) = getCurrentTime s"
  "getCurrentTime (s\<lparr>pending := n\<rparr>) = getCurrentTime s"
  "getCurrentTime (s\<lparr>scheduledPause := v\<rparr>) = getCurrentTime s"
  by (simp_all add: getCurrentTime_def getPlayedTime_def getDuration_def
      split: option.splits pstate.splits)

lemma getCurrentTime_playing:
  "state s = Some PLAYING \<Longrightarrow> getCurrentTime s = js_add (startPosition s) (getPlayedTime s)"
  by (simp add: getCurrentTime_def)

text \<open>The handlers of the \<open>pause\<close> event only append to the log.\<close>

lemma on_pause_funpow:
  "(on_pause ^^ n) s =
     s\<lparr>events := events s @ replicate n (EvAudioprocess (getCurrentTime s))\<rparr>"
proof (induction n)
  case 0
  show ?case by simp
next
  case (Suc n)
  then show ?case
    by (simp add: on_pause_def fireEvent_def replicate_append_same)
qed

text \<open>\<open>pause\<close> in closed form: four fields change, whatever the state was.\<close>

lemma pause_eq:
  "pause s = s\<lparr>scheduledPause := Null,
      startPosition := js_add (startPosition s) (getPlayedTime s),
      state := Some PAUSED,
      events := events s @ EvPause #
        replicate (timers s) (EvAudioprocess (js_add (startPosition s) (getPlayedTime s)))\<rparr>"
  by (cases s)
    (simp add: pause_def Let_def setState_def fireEvent_def on_pause_funpow
      getCurrentTime_def getPlayedTime_def)

lemma clock_update_fields [simp]:
  "state (clock_update t s) = state s"
  "startPosition (clock_update t s) = startPosition s"
  "playbackRate (clock_update t s) = playbackRate s"
  "explicitDuration (clock_update t s) = explicitDuration s"
  "scheduledPause (clock_update t s) = scheduledPause s"
  "events (clock_update t s) = events s"
  "timers (clock_update t s) = timers s"
  "pending (clock_update t s) = pending s"
  by (simp_all add: clock_update_def Let_def)

lemma clock_update_Undefined [simp]: "clock_update Undefined s = s"
  by (simp add: clock_update_def)

lemma getDuration_clock_update [simp]: "getDuration (clock_update t s) = getDuration s"
  by (simp add: getDuration_def)

text \<open>
  Run with no argument, as the handler of \<open>play\<close> does, the callback leaves the clock
  fields and the rate alone; so \<open>play\<close> returns with both anchors unset.
\<close>

lemma onAudioProcess_finish:
  "js_ge (getCurrentTime (clock_update t s)) (getDuration s) \<Longrightarrow>
   onAudioProcess t s = setState FINISHED (pause (clock_update t s))"
  by (simp add: onAudioProcess_def Let_def)

lemma onAudioProcess_Undefined_fields:
  "lastPlay (onAudioProcess Undefined s) = lastPlay s"
  "clockTime (onAudioProcess Undefined s) = clockTime s"
  "playbackRate (onAudioProcess Undefined s) = playbackRate s"
  by (simp_all add: onAudioProcess_def Let_def setState_def pause_eq
      requestAnimationFrame_def fireEvent_def)

lemma onAudioProcess_Undefined_funpow:
  "lastPlay ((onAudioProcess Undefined ^^ n) s) = lastPlay s \<and>
   clockTime ((onAudioProcess Undefined ^^ n) s) = clockTime s \<and>
   playbackRate ((onAudioProcess Undefined ^^ n) s) = playbackRate s"
  by (induction n) (simp_all add: onAudioProcess_Undefined_fields)

lemma play_anchors:
  "lastPlay (play start end s) = Null" "clockTime (play start end s) = Null"
  by (simp_all add: play_def Let_def onAudioProcess_Undefined_funpow fireEvent_def)


section \<open>Querying the state\<close>

text \<open>
  C10. \<open>isPaused()\<close> is true exactly when the state is not Playing; in particular it is
  true while the state is Finished, not only while it is Paused.
\<close>

theorem isPaused_iff_not_playing:
  "isPaused s = (state s \<noteq> Some PLAYING) \<and>
   (state s = Some FINISHED \<longrightarrow> isPaused s) \<and>
   (state s = Some PAUSED \<longrightarrow> isPaused s)"
  by (simp add: isPaused_def)

theorem isPaused_iff_not_playing_witness:
  "isPaused demo_finished \<and> isPaused demo \<and> \<not> isPaused demo_playing"
proof -
  have a: "state demo_finished = Some FINISHED" "state demo = Some PAUSED"
    "state demo_playing = Some PLAYING"
    by code_simp+
  from a isPaused_iff_not_playing [of demo_finished] isPaused_iff_not_playing [of demo]
    isPaused_iff_not_playing [of demo_playing]
  show ?thesis by simp
qed

text \<open>
  C2. \<open>getCurrentTime()\<close> returns \<open>startPosition\<close> when the state is Paused,
  \<open>startPosition + (clockTime - lastPlay) * playbackRate\<close> when it is Playing (the third
  conjunct reads the sum in the reals when the four fields hold finite numbers), and the
  duration of the clip when it is Finished. This holds in every state, reachable or not.
\<close>

theorem getCurrentTime_by_state:
  "(state s = Some PAUSED \<longrightarrow> getCurrentTime s = startPosition s) \<and>
   (state s = Some PLAYING \<longrightarrow>
      getCurrentTime s =
        js_add (startPosition s) (js_mul (js_sub (clockTime s) (lastPlay s)) (playbackRate s))) \<and>
   (state s = Some PLAYING \<and> startPosition s = JNum (Fin p) \<and> clockTime s = JNum (Fin c) \<and>
      lastPlay s = JNum (Fin l) \<and> playbackRate s = JNum (Fin r) \<longrightarrow>
      getCurrentTime s = JNum (Fin (p + (c - l) * r))) \<and>
   (state s = Some FINISHED \<longrightarrow> getCurrentTime s = explicitDuration s)"
  by (simp add: getCurrentTime_def getPlayedTime_def getDuration_def
      js_add_def js_mul_def js_sub_def num_sub_def)

theorem getCurrentTime_by_state_witness:
  "getCurrentTime demo = JNum (Fin 0) \<and>
   getCurrentTime demo_playing = JNum (Fin (0 + (1 - 0) * 1)) \<and>
   getCurrentTime demo_finished = JNum (Fin 10)"
proof -
  have a: "state demo = Some PAUSED" "startPosition demo = JNum (Fin 0)"
    by code_simp+
  have b: "state demo_playing = Some PLAYING \<and> startPosition demo_playing = JNum (Fin 0) \<and>
      clockTime demo_playing = JNum (Fin 1) \<and> lastPlay demo_playing = JNum (Fin 0) \<and>
      playbackRate demo_playing = JNum (Fin 1)"
    by code_simp
  have c: "state demo_finished = Some FINISHED" "explicitDuration demo_finished = JNum (Fin 10)"
    by code_simp+
  from a getCurrentTime_by_state [of demo] have "getCurrentTime demo = JNum (Fin 0)"
    by simp
  moreover from b getCurrentTime_by_state [of demo_playing 0 1 0 1]
  have "getCurrentTime demo_playing = JNum (Fin (0 + (1 - 0) * 1))"
    by blast
  moreover from c getCurrentTime_by_state [of demo_finished]
  have "getCurrentTime demo_finished = JNum (Fin 10)"
    by simp
  ultimately show ?thesis by blast
qed

text \<open>
  C9, as stated, fails: with a duration of 0 and a current time of 5 the quotient is
  \<open>Infinity\<close>, which is truthy, so \<open>|| 0\<close> lets it through.
\<close>

theorem getPlayedPercents_infinite:
  "state demo_zero = Some PAUSED \<and> getDuration demo_zero = JNum (Fin 0) \<and>
   getPlayedPercents demo_zero = JNum PInf \<and> getPlayedPercents demo_zero \<noteq> JNum (Fin 0)"
  by code_simp

text \<open>
  C9, amended. \<open>getPlayedPercents()\<close> returns 1 whenever the state is Finished; otherwise it
  returns the quotient of the current time by the duration, replaced by 0 when that quotient
  is falsy (0 or NaN). So it is 0 whenever the duration is \<open>undefined\<close> or NaN, and whenever
  the duration is 0 or \<open>null\<close> and the current time is 0 or not a number; with a duration
  of 0 and a non-zero current time it is an infinity of the sign of the current time.
\<close>

theorem getPlayedPercents_cases:
  "(state s = Some FINISHED \<longrightarrow> getPlayedPercents s = JNum (Fin 1)) \<and>
   (state s \<noteq> Some FINISHED \<longrightarrow>
      getPlayedPercents s = js_or (js_div (getCurrentTime s) (getDuration s)) (JNum (Fin 0))) \<and>
   (state s \<noteq> Some FINISHED \<and> to_number (getDuration s) = NaN \<longrightarrow>
      getPlayedPercents s = JNum (Fin 0)) \<and>
   (state s \<noteq> Some FINISHED \<and> to_number (getDuration s) = Fin 0 \<and>
      (to_number (getCurrentTime s) = Fin 0 \<or> to_number (getCurrentTime s) = NaN) \<longrightarrow>
      getPlayedPercents s = JNum (Fin 0)) \<and>
   (state s \<noteq> Some FINISHED \<and> to_number (getDuration s) = Fin 0 \<and>
      to_number (getCurrentTime s) = Fin c \<and> c \<noteq> 0 \<longrightarrow>
      getPlayedPercents s = JNum (if 0 < c then PInf else NInf)) \<and>
   (state s \<noteq> Some FINISHED \<and> to_number (getDuration s) = Fin d \<and> d \<noteq> 0 \<and>
      to_number (getCurrentTime s) = Fin c \<longrightarrow>
      getPlayedPercents s = JNum (Fin (c / d)))"
  apply (simp add: getPlayedPercents_def js_or_def js_div_def signed_inf_def)
  apply (cases "to_number (getCurrentTime s)")
     apply auto
  done

theorem getPlayedPercents_cases_witness:
  "getPlayedPercents demo_finished = JNum (Fin 1) \<and>
   getPlayedPercents demo_playing = JNum (Fin (1 / 10)) \<and>
   getPlayedPercents (setPeaks (Some []) Undefined demo_playing) = JNum (Fin 0) \<and>
   getPlayedPercents (setPeaks (Some []) (JNum (Fin 0)) demo) = JNum (Fin 0) \<and>
   getPlayedPercents demo_zero = JNum PInf"
proof -
  let ?u = "setPeaks (Some []) Undefined demo_playing"
  let ?z = "setPeaks (Some []) (JNum (Fin 0)) demo"
  have a: "state demo_finished = Some FINISHED"
    by code_simp
  have b: "state demo_playing \<noteq> Some FINISHED \<and>
      to_number (getDuration demo_playing) = Fin 10 \<and> (10::real) \<noteq> 0 \<and>
      to_number (getCurrentTime demo_playing) = Fin 1"
    by code_simp
  have c: "state ?u \<noteq> Some FINISHED \<and> to_number (getDuration ?u) = NaN"
    by code_simp
  have d: "state ?z \<noteq> Some FINISHED \<and> to_number (getDuration ?z) = Fin 0 \<and>
      (to_number (getCurrentTime ?z) = Fin 0 \<or> to_number (getCurrentTime ?z) = NaN)"
    by code_simp
  have e: "state demo_zero \<noteq> Some FINISHED \<and> to_number (getDuration demo_zero) = Fin 0 \<and>
      to_number (getCurrentTime demo_zero) = Fin 5 \<and> (5::real) \<noteq> 0"
    by code_simp
  from a getPlayedPercents_cases [of demo_finished]
  have "getPlayedPercents demo_finished = JNum (Fin 1)"
    by blast
  moreover from b getPlayedPercents_cases [where s = demo_playing and c = 1 and d = 10]
  have "getPlayedPercents demo_playing = JNum (Fin (1 / 10))"
    by blast
  moreover from c getPlayedPercents_cases [of ?u]
  have "getPlayedPercents ?u = JNum (Fin 0)"
    by blast
  moreover from d getPlayedPercents_cases [of ?z]
  have "getPlayedPercents ?z = JNum (Fin 0)"
    by blast
  moreover from e getPlayedPercents_cases [where s = demo_zero and c = 5]
  have "getPlayedPercents demo_zero = JNum (if (0::real) < 5 then PInf else NInf)"
    by blast
  then have "getPlayedPercents demo_zero = JNum PInf"
    by simp
  ultimately show ?thesis by blast
qed

text \<open>
  C4, as stated, fails: after \<open>play(3)\<close> and before any tick the state is Playing, both
  anchors are \<open>null\<close>, and \<open>getCurrentTime()\<close> is the number 3, since
  \<open>(null - null) * playbackRate\<close> is 0.
\<close>

theorem getCurrentTime_before_first_tick_number:
  "state demo_started = Some PLAYING \<and> lastPlay demo_started = Null \<and>
   clockTime demo_started = Null \<and> getCurrentTime demo_started = JNum (Fin 3) \<and>
   getCurrentTime demo_started \<noteq> Undefined"
  by code_simp

text \<open>
  C4, amended. \<open>play()\<close> leaves \<open>lastPlay\<close> and \<open>clockTime\<close> unset, and in every
  Playing state with both unset \<open>getCurrentTime()\<close> is a number, never \<open>undefined\<close>:
  \<open>startPosition + 0 * playbackRate\<close>, which for a finite rate is \<open>startPosition\<close>
  read as a number.
\<close>

theorem getCurrentTime_before_first_tick:
  "lastPlay (play start end s0) = Null \<and> clockTime (play start end s0) = Null \<and>
   (state s = Some PLAYING \<and> lastPlay s = Null \<and> clockTime s = Null \<longrightarrow>
      getCurrentTime s =
        JNum (num_add (to_number (startPosition s))
          (num_mul (Fin 0) (to_number (playbackRate s)))) \<and>
      getCurrentTime s \<noteq> Undefined) \<and>
   (state s = Some PLAYING \<and> lastPlay s = Null \<and> clockTime s = Null \<and>
      playbackRate s = JNum (Fin r) \<longrightarrow>
      getCurrentTime s = JNum (to_number (startPosition s)))"
  by (simp add: play_anchors getCurrentTime_def getPlayedTime_def js_add_def js_mul_def
      js_sub_def num_sub_def)

theorem getCurrentTime_before_first_tick_witness:
  "lastPlay demo_started = Null \<and> clockTime demo_started = Null \<and>
   getCurrentTime demo_started = JNum (Fin 3)"
proof -
  have a: "state demo_started = Some PLAYING \<and> lastPlay demo_started = Null \<and>
      clockTime demo_started = Null \<and> playbackRate demo_started = JNum (Fin 1)"
    by code_simp
  have b: "to_number (startPosition demo_started) = Fin 3"
    by code_simp
  from a getCurrentTime_before_first_tick [of "JNum (Fin 3)" Undefined demo demo_started 1]
  have "getCurrentTime demo_started = JNum (to_number (startPosition demo_started))"
    by blast
  with a b show ?thesis by simp
qed


section \<open>Seeking\<close>

text \<open>
  C8. \<open>seekTo(start)\<close> with \<open>start\<close> unspecified (\<open>undefined\<close> or \<open>null\<close>) sets
  \<open>startPosition\<close> to the current time, or to 0 when the current time is at or beyond the
  duration; with an explicit \<open>start\<close> it sets \<open>startPosition\<close> to exactly that value; in
  either case a Finished state becomes Paused, and any other state is kept.
\<close>

theorem seekTo_start:
  "startPosition (seekTo start s) =
     (if nullish start then
        (if js_ge (getCurrentTime s) (getDuration s) then JNum (Fin 0) else getCurrentTime s)
      else start) \<and>
   (state s = Some FINISHED \<longrightarrow> state (seekTo start s) = Some PAUSED) \<and>
   (state s \<noteq> Some FINISHED \<longrightarrow> state (seekTo start s) = state s)"
  by (simp add: seekTo_def Let_def setState_def)

theorem seekTo_start_witness:
  "startPosition (seekTo Undefined demo_finished) = JNum (Fin 0) \<and>
   state (seekTo Undefined demo_finished) = Some PAUSED \<and>
   startPosition (seekTo (JNum (Fin 4)) demo_playing) = JNum (Fin 4) \<and>
   state (seekTo (JNum (Fin 4)) demo_playing) = Some PLAYING \<and>
   startPosition (seekTo Null demo_playing) = JNum (Fin 1)"
proof -
  have a: "state demo_finished = Some FINISHED"
    "js_ge (getCurrentTime demo_finished) (getDuration demo_finished)"
    by code_simp+
  have b: "state demo_playing = Some PLAYING"
    "\<not> js_ge (getCurrentTime demo_playing) (getDuration demo_playing)"
    "getCurrentTime demo_playing = JNum (Fin 1)"
    by code_simp+
  from a seekTo_start [of Undefined demo_finished]
  have "startPosition (seekTo Undefined demo_finished) = JNum (Fin 0) \<and>
     state (seekTo Undefined demo_finished) = Some PAUSED"
    by simp
  moreover from b seekTo_start [of "JNum (Fin 4)" demo_playing]
  have "startPosition (seekTo (JNum (Fin 4)) demo_playing) = JNum (Fin 4) \<and>
     state (seekTo (JNum (Fin 4)) demo_playing) = Some PLAYING"
    by simp
  moreover from b seekTo_start [of Null demo_playing]
  have "startPosition (seekTo Null demo_playing) = JNum (Fin 1)"
    by simp
  ultimately show ?thesis by blast
qed

text \<open>
  C5, as stated, fails: nothing clamps \<open>startPosition\<close>. On a clip of 4 seconds
  \<open>seekTo(5)\<close> stores 5; and the tick at second 11 that finishes a clip of 10 seconds
  leaves \<open>startPosition\<close> at 11.
\<close>

theorem startPosition_not_clamped:
  "startPosition demo_past = JNum (Fin 5) \<and> explicitDuration demo_past = JNum (Fin 4) \<and>
   \<not> js_ge (explicitDuration demo_past) (startPosition demo_past) \<and>
   state demo_finished = Some FINISHED \<and> startPosition demo_finished = JNum (Fin 11) \<and>
   explicitDuration demo_finished = JNum (Fin 10) \<and>
   \<not> js_ge (explicitDuration demo_finished) (startPosition demo_finished)"
  by code_simp

text \<open>
  C5, amended. \<open>startPosition\<close> is not clamped. \<open>seekTo(p)\<close> with an explicit \<open>p\<close>
  stores \<open>p\<close> as it is. \<open>seekTo()\<close> with no argument stores the current time, or 0 when
  the current time is at or beyond the duration, which lies in \<open>[0, explicitDuration]\<close>
  whenever the current time and the duration are finite and not negative. On the transition
  from Playing to Finished \<open>startPosition\<close> becomes the computed current time, which is at
  or beyond the duration, while \<open>getCurrentTime()\<close> reports the duration.
\<close>

theorem startPosition_on_seek_and_finish:
  "(\<not> nullish start \<longrightarrow> startPosition (seekTo start s) = start) \<and>
   (nullish start \<and> getDuration s = JNum (Fin d) \<and> getCurrentTime s = JNum (Fin c) \<and>
      0 \<le> c \<and> 0 \<le> d \<longrightarrow>
      startPosition (seekTo start s) = JNum (Fin (if d \<le> c then 0 else c)) \<and>
      0 \<le> (if d \<le> c then 0 else c) \<and> (if d \<le> c then 0 else c) \<le> d) \<and>
   (state s = Some PLAYING \<and> js_ge (getCurrentTime (clock_update t s)) (getDuration s) \<longrightarrow>
      state (onAudioProcess t s) = Some FINISHED \<and>
      startPosition (onAudioProcess t s) = getCurrentTime (clock_update t s) \<and>
      js_ge (startPosition (onAudioProcess t s)) (explicitDuration (onAudioProcess t s)) \<and>
      getCurrentTime (onAudioProcess t s) = explicitDuration s)"
proof -
  have a: "\<not> nullish start \<longrightarrow> startPosition (seekTo start s) = start"
    by (simp add: seekTo_def Let_def setState_def)
  have b: "nullish start \<and> getDuration s = JNum (Fin d) \<and> getCurrentTime s = JNum (Fin c) \<and>
      0 \<le> c \<and> 0 \<le> d \<longrightarrow>
      startPosition (seekTo start s) = JNum (Fin (if d \<le> c then 0 else c)) \<and>
      0 \<le> (if d \<le> c then 0 else c) \<and> (if d \<le> c then 0 else c) \<le> d"
    by (simp add: seekTo_def Let_def setState_def js_ge_def)
  have c: "state (onAudioProcess t s) = Some FINISHED \<and>
      startPosition (onAudioProcess t s) = getCurrentTime (clock_update t s) \<and>
      js_ge (startPosition (onAudioProcess t s)) (explicitDuration (onAudioProcess t s)) \<and>
      getCurrentTime (onAudioProcess t s) = explicitDuration s"
    if h: "state s = Some PLAYING \<and> js_ge (getCurrentTime (clock_update t s)) (getDuration s)"
  proof -
    from h have cur: "getCurrentTime (clock_update t s) =
        js_add (startPosition (clock_update t s)) (getPlayedTime (clock_update t s))"
      by (simp add: getCurrentTime_playing)
    from h have eq: "onAudioProcess t s = setState FINISHED (pause (clock_update t s))"
      by (simp add: onAudioProcess_finish)
    have st: "state (onAudioProcess t s) = Some FINISHED"
      and sp: "startPosition (onAudioProcess t s) = getCurrentTime (clock_update t s)"
      and du: "explicitDuration (onAudioProcess t s) = explicitDuration s"
      by (simp_all add: eq setState_def fireEvent_def pause_eq cur)
    from st du have "getCurrentTime (onAudioProcess t s) = explicitDuration s"
      by (simp add: getCurrentTime_def getDuration_def)
    moreover from h sp du
    have "js_ge (startPosition (onAudioProcess t s)) (explicitDuration (onAudioProcess t s))"
      by (simp add: getDuration_def)
    ultimately show ?thesis using st sp by blast
  qed
  from a b c show ?thesis by blast
qed

theorem startPosition_on_seek_and_finish_witness:
  "startPosition (seekTo (JNum (Fin 5)) demo_playing) = JNum (Fin 5) \<and>
   startPosition (seekTo Undefined demo_finished) = JNum (Fin 0) \<and>
   state (onAudioProcess (JNum (Fin 11000)) demo_playing) = Some FINISHED \<and>
   startPosition (onAudioProcess (JNum (Fin 11000)) demo_playing) = JNum (Fin 11) \<and>
   getCurrentTime (onAudioProcess (JNum (Fin 11000)) demo_playing) = JNum (Fin 10)"
proof -
  let ?t = "JNum (Fin 11000)"
  have a: "\<not> nullish (JNum (Fin 5))"
    by simp
  have b: "nullish Undefined \<and> getDuration demo_finished = JNum (Fin 10) \<and>
      getCurrentTime demo_finished = JNum (Fin 10) \<and> (0::real) \<le> 10 \<and> (0::real) \<le> 10"
    by code_simp
  have c: "state demo_playing = Some PLAYING \<and>
      js_ge (getCurrentTime (clock_update ?t demo_playing)) (getDuration demo_playing)"
    by code_simp
  have d: "getCurrentTime (clock_update ?t demo_playing) = JNum (Fin 11)"
    "explicitDuration demo_playing = JNum (Fin 10)"
    by code_simp+
  from a startPosition_on_seek_and_finish [where start = "JNum (Fin 5)" and s = demo_playing]
  have "startPosition (seekTo (JNum (Fin 5)) demo_playing) = JNum (Fin 5)"
    by blast
  moreover
  from b startPosition_on_seek_and_finish
    [where start = Undefined and s = demo_finished and d = 10 and c = 10]
  have "startPosition (seekTo Undefined demo_finished) =
      JNum (Fin (if (10::real) \<le> 10 then 0 else 10))"
    by blast
  then have "startPosition (seekTo Undefined demo_finished) = JNum (Fin 0)"
    by simp
  moreover
  from c startPosition_on_seek_and_finish [where s = demo_playing and t = ?t]
  have "state (onAudioProcess ?t demo_playing) = Some FINISHED \<and>
      startPosition (onAudioProcess ?t demo_playing) =
        getCurrentTime (clock_update ?t demo_playing) \<and>
      getCurrentTime (onAudioProcess ?t demo_playing) = explicitDuration demo_playing"
    by blast
  then have "state (onAudioProcess ?t demo_playing) = Some FINISHED \<and>
      startPosition (onAudioProcess ?t demo_playing) = JNum (Fin 11) \<and>
      getCurrentTime (onAudioProcess ?t demo_playing) = JNum (Fin 10)"
    by (simp add: d)
  ultimately show ?thesis by blast
qed


section \<open>Ticks\<close>

text \<open>
  C7, as stated, fails for the scheduled pause 0: \<open>play(0, 0)\<close> stores 0, the handler tests
  \<open>this.scheduledPause && ...\<close>, and 0 is falsy. After the frame at 0 ms, the tick at
  1000 ms computes the current time 1, at or beyond the scheduled pause and below the
  duration, and the backend keeps playing: no \<open>pause\<close> event, the field not cleared.
\<close>

theorem scheduled_pause_zero_ignored:
  "state demo_end_zero = Some PLAYING \<and> scheduledPause demo_end_zero = JNum (Fin 0) \<and>
   js_ge (getCurrentTime (clock_update (JNum (Fin 1000)) demo_end_zero))
     (scheduledPause demo_end_zero) \<and>
   \<not> js_ge (getCurrentTime (clock_update (JNum (Fin 1000)) demo_end_zero))
     (getDuration demo_end_zero) \<and>
   state (onAudioProcess (JNum (Fin 1000)) demo_end_zero) = Some PLAYING \<and>
   scheduledPause (onAudioProcess (JNum (Fin 1000)) demo_end_zero) = JNum (Fin 0) \<and>
   EvPause \<notin> set (events (onAudioProcess (JNum (Fin 1000)) demo_end_zero))"
  by code_simp

text \<open>
  C7, amended. For every scheduled pause that is a number other than 0, a tick while Playing
  whose computed current time (the one after the clock fields are updated) is at or beyond
  the scheduled pause and not at or beyond the duration pauses the backend: the state is
  Paused, \<open>startPosition\<close> is that current time, the tick fires \<open>pause\<close> and the
  \<open>audioprocess\<close> answers of the timers and no \<open>finish\<close>, the scheduled pause is cleared
  and no further callback is armed.
\<close>

theorem scheduled_pause_tick:
  assumes "state s = Some PLAYING"
    and "scheduledPause s = JNum e" and "e \<noteq> Fin 0"
    and "js_ge (getCurrentTime (clock_update t s)) (scheduledPause s)"
    and "\<not> js_ge (getCurrentTime (clock_update t s)) (getDuration s)"
  shows "state (onAudioProcess t s) = Some PAUSED \<and>
    scheduledPause (onAudioProcess t s) = Null \<and>
    startPosition (onAudioProcess t s) = getCurrentTime (clock_update t s) \<and>
    events (onAudioProcess t s) =
      events s @ EvPause #
        replicate (timers s) (EvAudioprocess (getCurrentTime (clock_update t s))) \<and>
    EvFinish \<notin> set (drop (length (events s)) (events (onAudioProcess t s))) \<and>
    pending (onAudioProcess t s) = pending s"
proof -
  have "e \<noteq> NaN"
    using assms(2,4)
    by (cases "to_number (getCurrentTime (clock_update t s))") (auto simp: js_ge_def)
  with assms(2,3) have tr: "truthy (scheduledPause s)"
    by (cases e) simp_all
  have cur: "getCurrentTime (clock_update t s) =
      js_add (startPosition (clock_update t s)) (getPlayedTime (clock_update t s))"
    using assms(1) by (simp add: getCurrentTime_playing)
  have "onAudioProcess t s = pause (clock_update t s)"
    using assms(4,5) tr by (simp add: onAudioProcess_def Let_def)
  then show ?thesis
    by (simp add: pause_eq cur)
qed

theorem scheduled_pause_tick_witness:
  "state (onAudioProcess (JNum (Fin 5000)) demo_end_five) = Some PAUSED \<and>
    scheduledPause (onAudioProcess (JNum (Fin 5000)) demo_end_five) = Null \<and>
    startPosition (onAudioProcess (JNum (Fin 5000)) demo_end_five) = JNum (Fin 5) \<and>
    events (onAudioProcess (JNum (Fin 5000)) demo_end_five) =
      events demo_end_five @ [EvPause, EvAudioprocess (JNum (Fin 5))] \<and>
    EvFinish \<notin> set (drop (length (events demo_end_five))
      (events (onAudioProcess (JNum (Fin 5000)) demo_end_five))) \<and>
    pending (onAudioProcess (JNum (Fin 5000)) demo_end_five) = pending demo_end_five"
proof -
  let ?t = "JNum (Fin 5000)"
  have a: "state demo_end_five = Some PLAYING" "scheduledPause demo_end_five = JNum (Fin 5)"
    "Fin 5 \<noteq> Fin 0"
    "js_ge (getCurrentTime (clock_update ?t demo_end_five)) (scheduledPause demo_end_five)"
    "\<not> js_ge (getCurrentTime (clock_update ?t demo_end_five)) (getDuration demo_end_five)"
    by code_simp+
  have b: "getCurrentTime (clock_update ?t demo_end_five) = JNum (Fin 5)"
    "timers demo_end_five = Suc 0"
    by code_simp+
  from scheduled_pause_tick [OF a] show ?thesis
    by (simp add: b)
qed

text \<open>
  A tick that finds the backend Playing with a current time at or beyond the duration fires
  \<open>pause\<close>, the \<open>audioprocess\<close> answers of the timers and one \<open>finish\<close>, and leaves
  the backend Finished with \<open>getPlayedPercents()\<close> at 1.
\<close>

lemma finishing_tick:
  assumes "state s = Some PLAYING"
    and "js_ge (getCurrentTime (clock_update t s)) (getDuration s)"
  shows "events (onAudioProcess t s) =
      events s @ EvPause #
        replicate (timers s) (EvAudioprocess (getCurrentTime (clock_update t s))) @ [EvFinish]"
    and "state (onAudioProcess t s) = Some FINISHED"
    and "getPlayedPercents (onAudioProcess t s) = JNum (Fin 1)"
proof -
  from assms(1) have cur: "getCurrentTime (clock_update t s) =
      js_add (startPosition (clock_update t s)) (getPlayedTime (clock_update t s))"
    by (simp add: getCurrentTime_playing)
  from assms(2) have eq: "onAudioProcess t s = setState FINISHED (pause (clock_update t s))"
    by (rule onAudioProcess_finish)
  show "events (onAudioProcess t s) =
      events s @ EvPause #
        replicate (timers s) (EvAudioprocess (getCurrentTime (clock_update t s))) @ [EvFinish]"
    and st: "state (onAudioProcess t s) = Some FINISHED"
    by (simp_all add: eq setState_def fireEvent_def pause_eq cur)
  from st show "getPlayedPercents (onAudioProcess t s) = JNum (Fin 1)"
    by (simp add: getPlayedPercents_def)
qed

text \<open>
  A tick that finds the backend already Finished takes the same branch whenever the duration
  is a number: \<open>pause\<close> adds the played time to \<open>startPosition\<close> again and sets the
  state to Paused, so \<open>setState\<close> sees a change of state and fires \<open>finish\<close> again.
\<close>

lemma stale_tick_finishes_again:
  assumes "state s = Some FINISHED" and "js_ge (getDuration s) (getDuration s)"
  shows "events (onAudioProcess t s) =
      events s @ EvPause #
        replicate (timers s)
          (EvAudioprocess (js_add (startPosition s) (getPlayedTime (clock_update t s)))) @
        [EvFinish]"
proof -
  from assms(1) have "getCurrentTime (clock_update t s) = getDuration s"
    by (simp add: getCurrentTime_def)
  with assms(2) have "onAudioProcess t s = setState FINISHED (pause (clock_update t s))"
    by (simp add: onAudioProcess_finish)
  then show ?thesis
    by (simp add: setState_def fireEvent_def pause_eq)
qed

text \<open>
  C6 on the session \<open>demo_two_chains\<close>: the backend is Playing with two callbacks armed and
  no \<open>finish\<close> fired so far. The frame at 1000 ms runs both callbacks. The first computes
  a current time at or beyond the duration, pauses and finishes. The second runs in the
  Finished state, where \<open>getCurrentTime()\<close> is the duration, takes the same branch, and
  since \<open>pause()\<close> has just set the state to Paused, \<open>setState\<close> fires \<open>finish\<close> a
  second time: two \<open>finish\<close> events for one playback.
\<close>

theorem finish_emitted_twice:
  "state demo_two_chains = Some PLAYING \<and> pending demo_two_chains = Suc (Suc 0) \<and>
   count_list (events demo_two_chains) EvFinish = 0 \<and>
   events (frame 1000 demo_two_chains) =
     events demo_two_chains @
       [EvPause, EvAudioprocess (JNum (Fin (23 / 2))), EvFinish,
        EvPause, EvAudioprocess (JNum (Fin (27 / 2))), EvFinish] \<and>
   count_list (events (frame 1000 demo_two_chains)) EvFinish = 2"
  by code_simp


section \<open>Pausing\<close>

text \<open>
  C3, as stated, fails: \<open>pause()\<close> does not reset \<open>lastPlay\<close> or \<open>clockTime\<close>, so a
  second \<open>pause()\<close> adds the played time once more. After \<open>play()\<close> and the frames at
  0 ms and 1000 ms the first \<open>pause()\<close> leaves \<open>startPosition\<close> at 1, the second at 2.
\<close>

theorem pause_twice_adds_again:
  "startPosition (pause demo_playing) = JNum (Fin 1) \<and>
   startPosition (pause (pause demo_playing)) = JNum (Fin 2) \<and>
   startPosition (pause (pause demo_playing)) \<noteq> startPosition (pause demo_playing)"
  by code_simp

text \<open>
  C3, amended. A second \<open>pause()\<close> in a row adds the played time
  \<open>(clockTime - lastPlay) * playbackRate\<close> to \<open>startPosition\<close> once more, the first call
  having left the clock fields and the rate as they were; with finite fields, \<open>startPosition\<close>
  is unchanged by the second call exactly when that played time is 0. The second call still
  fires the \<open>pause\<close> event (and the \<open>audioprocess\<close> answers of the timers).
\<close>

theorem pause_twice:
  "getPlayedTime (pause s) = getPlayedTime s \<and>
   startPosition (pause (pause s)) = js_add (startPosition (pause s)) (getPlayedTime s) \<and>
   events (pause (pause s)) =
     events (pause s) @ EvPause #
       replicate (timers s) (EvAudioprocess (startPosition (pause (pause s)))) \<and>
   (startPosition s = JNum (Fin p) \<and> clockTime s = JNum (Fin c) \<and> lastPlay s = JNum (Fin l) \<and>
      playbackRate s = JNum (Fin r) \<longrightarrow>
      startPosition (pause s) = JNum (Fin (p + (c - l) * r)) \<and>
      startPosition (pause (pause s)) = JNum (Fin (p + (c - l) * r + (c - l) * r)) \<and>
      (startPosition (pause (pause s)) = startPosition (pause s) \<longleftrightarrow> (c - l) * r = 0))"
proof -
  have pt: "getPlayedTime (pause s) = getPlayedTime s"
    by (simp add: pause_eq getPlayedTime_def)
  have sp: "startPosition (pause (pause s)) = js_add (startPosition (pause s)) (getPlayedTime s)"
    using pt by (simp add: pause_eq [of "pause s"])
  have ev: "events (pause (pause s)) =
     events (pause s) @ EvPause #
       replicate (timers s) (EvAudioprocess (startPosition (pause (pause s))))"
    by (simp add: pause_eq [of "pause s"]) (simp add: pause_eq)
  have fin: "startPosition (pause s) = JNum (Fin (p + (c - l) * r)) \<and>
      startPosition (pause (pause s)) = JNum (Fin (p + (c - l) * r + (c - l) * r)) \<and>
      (startPosition (pause (pause s)) = startPosition (pause s) \<longleftrightarrow> (c - l) * r = 0)"
    if "startPosition s = JNum (Fin p) \<and> clockTime s = JNum (Fin c) \<and> lastPlay s = JNum (Fin l) \<and>
      playbackRate s = JNum (Fin r)"
  proof -
    have g: "getPlayedTime s = JNum (Fin ((c - l) * r))"
      using that by (simp add: getPlayedTime_def js_mul_def js_sub_def num_sub_def)
    have one: "startPosition (pause s) = JNum (Fin (p + (c - l) * r))"
      using that g by (simp add: pause_eq js_add_def)
    have two: "startPosition (pause (pause s)) = JNum (Fin (p + (c - l) * r + (c - l) * r))"
      using sp one g by (simp add: js_add_def)
    from one two show ?thesis by auto
  qed
  from pt sp ev fin show ?thesis by blast
qed

theorem pause_twice_witness:
  "startPosition (pause demo_playing) = JNum (Fin (0 + (1 - 0) * 1)) \<and>
   startPosition (pause (pause demo_playing)) = JNum (Fin (0 + (1 - 0) * 1 + (1 - 0) * 1)) \<and>
   events (pause (pause demo_playing)) =
     events (pause demo_playing) @ [EvPause, EvAudioprocess (JNum (Fin 2))] \<and>
   startPosition (pause (pause (frame 0 (play Undefined Undefined demo)))) =
     startPosition (pause (frame 0 (play Undefined Undefined demo)))"
proof -
  let ?a = "frame 0 (play Undefined Undefined demo)"
  have a: "startPosition demo_playing = JNum (Fin 0) \<and> clockTime demo_playing = JNum (Fin 1) \<and>
      lastPlay demo_playing = JNum (Fin 0) \<and> playbackRate demo_playing = JNum (Fin 1)"
    by code_simp
  have b: "startPosition ?a = JNum (Fin 0) \<and> clockTime ?a = JNum (Fin 0) \<and>
      lastPlay ?a = JNum (Fin 0) \<and> playbackRate ?a = JNum (Fin 1)"
    by code_simp
  have c: "timers demo_playing = Suc 0"
    by code_simp
  from a pause_twice [of demo_playing 0 1 0 1]
  have "startPosition (pause demo_playing) = JNum (Fin (0 + (1 - 0) * 1)) \<and>
    startPosition (pause (pause demo_playing)) = JNum (Fin (0 + (1 - 0) * 1 + (1 - 0) * 1)) \<and>
    events (pause (pause demo_playing)) =
     events (pause demo_playing) @ EvPause #
       replicate (timers demo_playing) (EvAudioprocess (startPosition (pause (pause demo_playing))))"
    by blast
  then have "startPosition (pause demo_playing) = JNum (Fin (0 + (1 - 0) * 1)) \<and>
    startPosition (pause (pause demo_playing)) = JNum (Fin (0 + (1 - 0) * 1 + (1 - 0) * 1)) \<and>
    events (pause (pause demo_playing)) =
     events (pause demo_playing) @ [EvPause, EvAudioprocess (JNum (Fin 2))]"
    by (simp add: c)
  moreover from b pause_twice [of ?a 0 0 0 1]
  have "startPosition (pause (pause ?a)) = startPosition (pause ?a) \<longleftrightarrow>
      ((0::real) - 0) * 1 = 0"
    by blast
  then have "startPosition (pause (pause ?a)) = startPosition (pause ?a)"
    by simp
  ultimately show ?thesis by blast
qed


section \<open>Playing sessions\<close>

text \<open>
  A tick that leaves the backend Playing found it Playing, took the third branch of the
  callback, and so changed only the clock fields, the log and the armed callbacks.
\<close>

lemma onAudioProcess_playing:
  assumes "state (onAudioProcess t s) = Some PLAYING"
  shows "onAudioProcess t s =
      requestAnimationFrame
        (fireEvent (EvAudioprocess (getCurrentTime (clock_update t s))) (clock_update t s))"
    and "\<not> js_ge (getCurrentTime (clock_update t s)) (getDuration s)"
    and "state s = Some PLAYING"
  using assms
  by (auto simp add: onAudioProcess_def Let_def setState_def pause_eq fireEvent_def
      requestAnimationFrame_def split: if_splits)

text \<open>Neither a tick nor a rate change brings a backend that is not Playing back to Playing.\<close>

lemma onAudioProcess_not_playing:
  "state s \<noteq> Some PLAYING \<Longrightarrow> state (onAudioProcess t s) \<noteq> Some PLAYING"
  using onAudioProcess_playing(3) by blast

lemma setPlaybackRate_not_playing:
  "state s \<noteq> Some PLAYING \<Longrightarrow> state (setPlaybackRate v s) \<noteq> Some PLAYING"
  by (simp add: setPlaybackRate_def isPaused_def Let_def)

lemma step_not_playing:
  "state s \<noteq> Some PLAYING \<Longrightarrow> state (step a s) \<noteq> Some PLAYING"
  by (cases a) (simp_all add: onAudioProcess_not_playing setPlaybackRate_not_playing)

lemma run_not_playing:
  "state s \<noteq> Some PLAYING \<Longrightarrow> state (run as s) \<noteq> Some PLAYING"
  by (induction as arbitrary: s) (simp_all add: step_not_playing)

text \<open>
  The handlers of \<open>play\<close>, when they leave the backend Playing, have moved neither the
  position nor the duration.
\<close>

lemma funpow_Undefined_playing:
  "state ((onAudioProcess Undefined ^^ n) s) = Some PLAYING \<Longrightarrow>
   state s = Some PLAYING \<and>
   startPosition ((onAudioProcess Undefined ^^ n) s) = startPosition s \<and>
   explicitDuration ((onAudioProcess Undefined ^^ n) s) = explicitDuration s"
proof (induction n)
  case 0
  then show ?case by simp
next
  case (Suc n)
  let ?x = "(onAudioProcess Undefined ^^ n) s"
  from Suc.prems have p: "state (onAudioProcess Undefined ?x) = Some PLAYING"
    by simp
  from onAudioProcess_playing(1) [OF p] onAudioProcess_playing(3) [OF p]
  have "state ?x = Some PLAYING"
    and "startPosition (onAudioProcess Undefined ?x) = startPosition ?x"
    and "explicitDuration (onAudioProcess Undefined ?x) = explicitDuration ?x"
    by (simp_all add: requestAnimationFrame_def fireEvent_def)
  with Suc.IH show ?case by simp
qed


text \<open>The invariant gives the current time, and both kinds of step keep it.\<close>

lemma session_inv_current:
  assumes "session_inv p r ts s"
  shows "getCurrentTime s = JNum (Fin (p + r * segment_duration ts))"
proof (cases "ts = []")
  case True
  with assms show ?thesis
    by (simp add: session_inv_def anchored_def getCurrentTime_def getPlayedTime_def
        js_add_def js_mul_def js_sub_def num_sub_def segment_duration_def)
next
  case False
  with assms show ?thesis
    by (simp add: session_inv_def anchored_def getCurrentTime_def getPlayedTime_def
        js_add_def js_mul_def js_sub_def num_sub_def segment_duration_def algebra_simps
        diff_divide_distrib)
qed

lemma tick_session_inv:
  assumes inv: "session_inv p r ts s"
    and pl: "state (step (Tick t) s) = Some PLAYING"
  shows "session_inv p r (ts @ [t]) (step (Tick t) s)"
proof -
  let ?t = "JNum (Fin t)"
  from pl have pl': "state (onAudioProcess ?t s) = Some PLAYING"
    by simp
  note eq = onAudioProcess_playing(1) [OF pl']
  note nge = onAudioProcess_playing(2) [OF pl']
  have cu: "clock_update ?t s =
      s\<lparr>clockTime := JNum (Fin (t / 1000)),
        lastPlay := (if ts = [] then JNum (Fin (t / 1000)) else lastPlay s)\<rparr>"
    using inv by (cases s) (auto simp add: clock_update_def Let_def js_div_def session_inv_def anchored_def)
  have "anchored (ts @ [t]) (clock_update ?t s)"
    using inv by (simp add: cu session_inv_def anchored_def)
  moreover have "getCurrentTime (step (Tick t) s) = getCurrentTime (clock_update ?t s)"
    by (simp add: eq requestAnimationFrame_def fireEvent_def)
  moreover have "getDuration (step (Tick t) s) = getDuration s"
    by (simp add: eq requestAnimationFrame_def fireEvent_def getDuration_def)
  ultimately show ?thesis
    using inv nge
    by (simp add: session_inv_def eq requestAnimationFrame_def fireEvent_def anchored_def)
qed


lemma rate_session_inv:
  assumes inv: "session_inv p r ts s"
    and pl: "state (step (SetRate v) s) = Some PLAYING"
  shows "session_inv (p + r * segment_duration ts) (if v = 0 then 1 else v) []
      (step (SetRate v) s)"
proof -
  let ?r = "if v = 0 then 1 else v"
  let ?p = "p + r * segment_duration ts"
  from inv have st: "state s = Some PLAYING"
    by (simp add: session_inv_def)
  from inv have nge: "\<not> js_ge (getCurrentTime s) (getDuration s)"
    by (simp add: session_inv_def)
  have cur: "getCurrentTime s = JNum (Fin ?p)"
    using inv by (rule session_inv_current)
  then have sp: "js_add (startPosition s) (getPlayedTime s) = JNum (Fin ?p)"
    using st by (simp add: getCurrentTime_playing)
  have rate: "js_or (JNum (Fin v)) (JNum (Fin 1)) = JNum (Fin ?r)"
    by (simp add: js_or_def)
  define s6 where "s6 = s\<lparr>scheduledPause := Undefined, startPosition := JNum (Fin ?p),
      state := Some PLAYING, playbackRate := JNum (Fin ?r), lastPlay := Null, clockTime := Null,
      events := events s @ EvPause # replicate (timers s) (EvAudioprocess (JNum (Fin ?p))) @
        [EvPlay]\<rparr>"
  have eq: "step (SetRate v) s = (onAudioProcess Undefined ^^ timers s) s6"
    using st nge cur sp
    by (cases s)
      (simp add: setPlaybackRate_def isPaused_def rate Let_def play_def seekTo_def pause_eq
        setState_def fireEvent_def getCurrentTime_def getDuration_def s6_def)
  from pl eq have pl': "state ((onAudioProcess Undefined ^^ timers s) s6) = Some PLAYING"
    by simp
  let ?x = "(onAudioProcess Undefined ^^ timers s) s6"
  from funpow_Undefined_playing [OF pl'] onAudioProcess_Undefined_funpow [of "timers s" s6]
  have "state ?x = Some PLAYING \<and> startPosition ?x = JNum (Fin ?p) \<and>
    explicitDuration ?x = explicitDuration s \<and> lastPlay ?x = Null \<and> clockTime ?x = Null \<and>
    playbackRate ?x = JNum (Fin ?r)"
    using pl' by (simp add: s6_def)
  then have f: "state (step (SetRate v) s) = Some PLAYING"
    "startPosition (step (SetRate v) s) = JNum (Fin ?p)"
    "explicitDuration (step (SetRate v) s) = explicitDuration s"
    "lastPlay (step (SetRate v) s) = Null" "clockTime (step (SetRate v) s) = Null"
    "playbackRate (step (SetRate v) s) = JNum (Fin ?r)"
    unfolding eq by blast+
  have "getCurrentTime (step (SetRate v) s) = JNum (Fin ?p)"
    using f by (simp add: getCurrentTime_def getPlayedTime_def js_add_def js_mul_def
        js_sub_def num_sub_def)
  moreover have "getDuration (step (SetRate v) s) = getDuration s"
    using f by (simp add: getDuration_def)
  ultimately have "\<not> js_ge (getCurrentTime (step (SetRate v) s)) (getDuration (step (SetRate v) s))"
    using nge cur by simp
  with f show ?thesis
    by (simp add: session_inv_def anchored_def)
qed

lemma run_advance:
  assumes "session_inv p r ts s" and "state (run as s) = Some PLAYING"
  shows "getCurrentTime (run as s) = JNum (Fin (p + segments_advance (segments r ts as)))"
  using assms
proof (induction as arbitrary: p r ts s)
  case Nil
  then show ?case
    by (simp add: session_inv_current segments_advance_def)
next
  case (Cons a as)
  from Cons.prems(2) have pl: "state (step a s) = Some PLAYING"
    using run_not_playing [of "step a s" as] by auto
  show ?case
  proof (cases a)
    case (Tick t)
    with Cons.prems(1) pl have "session_inv p r (ts @ [t]) (step a s)"
      by (simp add: tick_session_inv del: step.simps)
    from Cons.IH [OF this] Cons.prems(2) Tick show ?thesis
      by simp
  next
    case (SetRate v)
    with Cons.prems(1) pl
    have "session_inv (p + r * segment_duration ts) (if v = 0 then 1 else v) [] (step a s)"
      by (simp add: rate_session_inv del: step.simps)
    from Cons.IH [OF this] Cons.prems(2) SetRate show ?thesis
      by (simp add: segments_advance_def)
  qed
qed


lemma segments_ticks: "segments r ts0 (map Tick ts) = [(r, ts0 @ ts)]"
  by (induction ts arbitrary: ts0) simp_all

text \<open>
  C1, as stated, fails: the time between the last tick before a \<open>setPlaybackRate\<close> call
  and the first tick after it is lost, because \<open>pause\<close> folds the played time up to the
  last tick and \<open>play\<close> anchors the next segment at the next tick. With ticks at 0, 1000
  and 2000 ms and \<open>setPlaybackRate(1)\<close> between the last two, the backend has played for
  2 seconds at rate 1 throughout, and the current time has advanced by 1, not by 2. The last
  conjunct replays the session through the frame scheduler.
\<close>

theorem rate_change_drops_interval:
  "state (run [Tick 0, Tick 1000, SetRate 1, Tick 2000] (play Undefined Undefined demo)) =
     Some PLAYING \<and>
   playbackRate (play Undefined Undefined demo) = JNum (Fin 1) \<and>
   playbackRate (run [Tick 0, Tick 1000, SetRate 1, Tick 2000] (play Undefined Undefined demo)) =
     JNum (Fin 1) \<and>
   getCurrentTime (play Undefined Undefined demo) = JNum (Fin 0) \<and>
   getCurrentTime (run [Tick 0, Tick 1000, SetRate 1, Tick 2000]
     (play Undefined Undefined demo)) = JNum (Fin 1) \<and>
   getCurrentTime (run [Tick 0, Tick 1000, SetRate 1, Tick 2000]
     (play Undefined Undefined demo)) \<noteq> JNum (Fin (0 + 1 * ((2000 - 0) / 1000))) \<and>
   getCurrentTime (frame 2000 (setPlaybackRate (JNum (Fin 1)) demo_playing)) = JNum (Fin 1)"
  by code_simp

text \<open>
  C1, amended. In a Playing session started by \<open>play\<close> and driven by ticks and
  \<open>setPlaybackRate\<close> calls, as long as the backend is still Playing (no tick has reached the
  duration or a scheduled pause), \<open>getCurrentTime()\<close> has advanced by the sum, over the
  segments between rate changes, of the segment's rate times the time from the segment's
  first tick to its last tick. With no rate change the advance is the rate times the time
  from the first tick to the last. The first tick after \<open>play\<close> or after a rate change only
  sets the anchor: the time between the last tick of a segment and the first tick of the next
  is not counted.
\<close>

theorem rate_segments_advance:
  assumes "state s = Some PLAYING" and "lastPlay s = Null" and "clockTime s = Null"
    and "startPosition s = JNum (Fin p)" and "playbackRate s = JNum (Fin r)"
    and "\<not> js_ge (getCurrentTime s) (getDuration s)"
  shows "(state (run as s) = Some PLAYING \<longrightarrow>
      getCurrentTime (run as s) = JNum (Fin (p + segments_advance (segments r [] as)))) \<and>
    (state (run (map Tick ts) s) = Some PLAYING \<longrightarrow>
      getCurrentTime (run (map Tick ts) s) = JNum (Fin (p + r * segment_duration ts)))"
proof -
  from assms have inv: "session_inv p r [] s"
    by (simp add: session_inv_def anchored_def)
  have a: "getCurrentTime (run as s) = JNum (Fin (p + segments_advance (segments r [] as)))"
    if "state (run as s) = Some PLAYING"
    using inv that by (rule run_advance)
  have b: "getCurrentTime (run (map Tick ts) s) = JNum (Fin (p + r * segment_duration ts))"
    if "state (run (map Tick ts) s) = Some PLAYING"
    using run_advance [OF inv that] by (simp add: segments_ticks segments_advance_def)
  from a b show ?thesis by blast
qed

theorem rate_segments_advance_witness:
  "getCurrentTime (run [Tick 0, Tick 1000, SetRate 2, Tick 2000, Tick 3000]
     (play Undefined Undefined demo)) = JNum (Fin (0 + (1 * ((1000 - 0) / 1000) + 2 * ((3000 - 2000) / 1000)))) \<and>
   getCurrentTime (run (map Tick [0, 1000, 2500]) (play Undefined Undefined demo)) =
     JNum (Fin (0 + 1 * ((2500 - 0) / 1000)))"
proof -
  let ?s = "play Undefined Undefined demo"
  let ?as = "[Tick 0, Tick 1000, SetRate 2, Tick 2000, Tick 3000]"
  let ?ts = "[0, 1000, 2500 :: real]"
  have a: "state ?s = Some PLAYING" "lastPlay ?s = Null" "clockTime ?s = Null"
    "startPosition ?s = JNum (Fin 0)" "playbackRate ?s = JNum (Fin 1)"
    "\<not> js_ge (getCurrentTime ?s) (getDuration ?s)"
    by code_simp+
  have b: "state (run ?as ?s) = Some PLAYING" "state (run (map Tick ?ts) ?s) = Some PLAYING"
    by code_simp+
  have c: "segments_advance (segments 1 [] ?as) =
      1 * ((1000 - 0) / 1000) + 2 * ((3000 - 2000) / 1000)"
    "segment_duration ?ts = (2500 - 0) / 1000"
    by (simp_all add: segments_advance_def segment_duration_def)
  from rate_segments_advance [OF a, of ?as ?ts] b
  have "getCurrentTime (run ?as ?s) = JNum (Fin (0 + segments_advance (segments 1 [] ?as))) \<and>
    getCurrentTime (run (map Tick ?ts) ?s) = JNum (Fin (0 + 1 * segment_duration ?ts))"
    by blast
  then show ?thesis
    unfolding c by simp
qed

end
